theory Spec2Isabelle
  imports Complex_Main
begin

section \<open>The analytics manager of the Application Insights demo\<close>

text \<open>
  A shallow embedding of the class \<open>AnalyticsManager\<close> (client-side analytics script):
  the identity helpers, the purchase journey (quote, application, policy), the A/B test
  simulation and the cohort tracker.

  The object's fields, the browser's \<open>localStorage\<close>, the part of the page the methods
  read or write and the telemetry handed to the SDK form one state record; every method
  is a function from states to states. What a method takes from its surroundings (the
  clock, the random generator, the current date, the page address) is a record \<open>env\<close>
  given to each call. All clock readings within one call are the same instant.

  Not modelled: \<open>console.log\<close>, the timers (\<open>setInterval\<close> of the time-on-page display,
  the \<open>setTimeout\<close> that hides the status line), the \<open>innerHTML\<close> of the device and
  cohort panels, and the telemetry initializer that the SDK runs on each envelope.
\<close>

subsection \<open>JavaScript values\<close>

text \<open>
  A JavaScript number is \<open>NaN\<close>, an infinity, or a finite value; a finite double is a
  rational, and the model keeps the exact rational (arithmetic on measurements is exact,
  rounding to 53 bits is not modelled).
\<close>

datatype jsnum = NaN | PosInf | NegInf | Num rat

datatype jsval = Null | Str string | Number jsnum | Boolean bool

type_synonym props = "(string \<times> jsval) list"
type_synonym measures = "(string \<times> jsnum) list"

text \<open>The calls of the SDK: each constructor is one method of \<open>appInsights\<close>.\<close>

datatype telemetry =
    ai_trackEvent string props measures
  | ai_trackPageView string string props measures
  | ai_trackMetric string jsnum props
  | ai_trackPageViewPerformance string string measures
  | ai_trackException string props

text \<open>\<open>!x\<close> on a value that is a string or \<open>null\<close>: true for \<open>null\<close> and for the empty string.\<close>

fun falsy :: "string option \<Rightarrow> bool" where
  "falsy None = True"
| "falsy (Some s) = (s = [])"

fun optval :: "string option \<Rightarrow> jsval" where
  "optval None = Null"
| "optval (Some s) = Str s"

text \<open>A \<open>null\<close> inside a template string or a concatenation reads \<open>null\<close>.\<close>

fun optstr :: "string option \<Rightarrow> string" where
  "optstr None = ''null''"
| "optstr (Some s) = s"

subsection \<open>Numbers to strings and back\<close>

definition digit_char :: "nat \<Rightarrow> char" where
  "digit_char n = ''0123456789'' ! n"

fun show_nat :: "nat \<Rightarrow> string" where
  "show_nat n = (if n < 10 then [digit_char n] else show_nat (n div 10) @ [digit_char (n mod 10)])"

declare show_nat.simps [simp del]

text \<open>The decimal text of an integer, as string concatenation and \<open>toString()\<close> give it.\<close>

definition show_int :: "int \<Rightarrow> string" where
  "show_int i = (if i < 0 then CHR ''-'' # show_nat (nat (- i)) else show_nat (nat i))"

text \<open>\<open>String.prototype.padStart(n, c)\<close> with a one-character filler.\<close>

definition padStart :: "nat \<Rightarrow> char \<Rightarrow> string \<Rightarrow> string" where
  "padStart n c s = replicate (n - length s) c @ s"

definition isDigit :: "char \<Rightarrow> bool" where
  "isDigit c = (c \<in> set ''0123456789'')"

definition isWhiteSpace :: "char \<Rightarrow> bool" where
  "isWhiteSpace c = (c \<in> {CHR '' '', CHR 0x09, CHR 0x0A, CHR 0x0B, CHR 0x0C, CHR 0x0D})"

definition digit_val :: "char \<Rightarrow> nat" where
  "digit_val c = of_char c - 48"

definition digits_val :: "string \<Rightarrow> nat" where
  "digits_val ds = foldl (\<lambda>a c. 10 * a + digit_val c) 0 ds"

text \<open>
  The exponent part of a decimal literal: \<open>e\<close> or \<open>E\<close>, an optional sign and at least one
  digit; anything else is no exponent part and leaves the value as it is.
\<close>

definition exponent :: "string \<Rightarrow> int" where
  "exponent r =
     (case r of
        [] \<Rightarrow> 0
      | c # r1 \<Rightarrow>
          if c = CHR ''e'' \<or> c = CHR ''E'' then
            (case r1 of
               [] \<Rightarrow> 0
             | d # r2 \<Rightarrow>
                 if d = CHR ''+'' then
                   (if takeWhile isDigit r2 = [] then 0 else int (digits_val (takeWhile isDigit r2)))
                 else if d = CHR ''-'' then
                   (if takeWhile isDigit r2 = [] then 0 else - int (digits_val (takeWhile isDigit r2)))
                 else
                   (if takeWhile isDigit r1 = [] then 0 else int (digits_val (takeWhile isDigit r1))))
          else 0)"

definition scale10 :: "rat \<Rightarrow> int \<Rightarrow> rat" where
  "scale10 x k = (if k < 0 then x / 10 ^ nat (- k) else x * 10 ^ nat k)"

definition unsignedLiteral :: "string \<Rightarrow> jsnum" where
  "unsignedLiteral u =
     (let ip = takeWhile isDigit u;
          r1 = dropWhile isDigit u;
          fp = (case r1 of [] \<Rightarrow> [] | c # r \<Rightarrow> if c = CHR ''.'' then takeWhile isDigit r else []);
          r2 = (case r1 of [] \<Rightarrow> [] | c # r \<Rightarrow> if c = CHR ''.'' then dropWhile isDigit r else r1)
      in if ip = [] \<and> fp = [] then NaN
         else Num (scale10 (of_nat (digits_val ip) + of_nat (digits_val fp) / 10 ^ length fp)
                           (exponent r2)))"

fun negate :: "jsnum \<Rightarrow> jsnum" where
  "negate NaN = NaN"
| "negate PosInf = NegInf"
| "negate NegInf = PosInf"
| "negate (Num x) = Num (- x)"

text \<open>
  The global \<open>parseFloat\<close>: leading white space is skipped, the longest prefix that is a
  decimal literal is read, and a text with no such prefix gives \<open>NaN\<close>. (White space
  outside ASCII, the sign of zero and the overflow of a huge literal to an infinity are
  not modelled.)
\<close>

definition parseFloat :: "string \<Rightarrow> jsnum" where
  "parseFloat s =
     (let t = dropWhile isWhiteSpace s;
          neg = (case t of [] \<Rightarrow> False | c # _ \<Rightarrow> c = CHR ''-'');
          u = (case t of [] \<Rightarrow> [] | c # r \<Rightarrow> if c = CHR ''+'' \<or> c = CHR ''-'' then r else t);
          v = (if take 8 u = ''Infinity'' then PosInf else unsignedLiteral u)
      in if neg then negate v else v)"

text \<open>
  The global \<open>parseInt\<close> without a radix, on decimal text (the \<open>0x\<close> prefix of
  hexadecimal text is not modelled): \<open>None\<close> is \<open>NaN\<close>.
\<close>

definition parseInt :: "string \<Rightarrow> int option" where
  "parseInt s =
     (let t = dropWhile isWhiteSpace s;
          neg = (case t of [] \<Rightarrow> False | c # _ \<Rightarrow> c = CHR ''-'');
          u = (case t of [] \<Rightarrow> [] | c # r \<Rightarrow> if c = CHR ''+'' \<or> c = CHR ''-'' then r else t);
          ds = takeWhile isDigit u
      in if ds = [] then None
         else Some (if neg then - int (digits_val ds) else int (digits_val ds)))"

text \<open>\<open>x || 0\<close> on a number: \<open>NaN\<close> and zero are falsy.\<close>

fun orZero :: "jsnum \<Rightarrow> jsnum" where
  "orZero NaN = Num 0"
| "orZero n = n"

fun intnum :: "int option \<Rightarrow> jsnum" where
  "intnum None = NaN"
| "intnum (Some i) = Num (of_int i)"

fun show_intnum :: "int option \<Rightarrow> string" where
  "show_intnum None = ''NaN''"
| "show_intnum (Some i) = show_int i"

subsection \<open>The state\<close>

record metrics =
  pageViews :: nat
  quoteRequests :: nat
  applicationsStarted :: nat
  applicationsCompleted :: nat
  policiesSold :: nat

text \<open>
  The fields of the \<open>AnalyticsManager\<close> object, followed by its surroundings:
  \<open>appInsights\<close> says whether \<open>window.appInsights\<close> is defined, \<open>telemetry\<close> is what has
  been handed to it (oldest first), \<open>localStorage\<close> is the browser's store, and the five
  \<open>elem_\<close> fields give, for the id of an element of the page, its \<open>value\<close>,
  \<open>textContent\<close>, \<open>disabled\<close>, \<open>className\<close> and \<open>style.display\<close>.
\<close>

record state =
  sessionId :: string
  userId :: string
  pageViewCount :: nat
  sessionStartTime :: int
  currentQuoteId :: "string option"
  currentApplicationId :: "string option"
  metrics :: metrics
  appInsights :: bool
  telemetry :: "telemetry list"
  localStorage :: "string \<rightharpoonup> string"
  elem_value :: "string \<Rightarrow> string"
  elem_text :: "string \<Rightarrow> string"
  elem_disabled :: "string \<Rightarrow> bool"
  elem_class :: "string \<Rightarrow> string"
  elem_display :: "string \<Rightarrow> string"

text \<open>
  What one call reads from outside the state: \<open>Date.now()\<close>; of \<open>new Date()\<close> the
  \<open>toISOString()\<close>, \<open>getFullYear()\<close> and \<open>getMonth()\<close>; the successive results of
  \<open>Math.random()\<close> (numbered from 0 within the call), as numbers and, where the
  source asks for it, as the text \<open>Math.random().toString(36).substr(2, 9)\<close>; \<open>new Date(s).getTime()\<close> for a text \<open>s\<close>
  (\<open>None\<close> is \<open>NaN\<close>); \<open>window.location.href\<close>; and the properties that
  \<open>trackDeviceInfo\<close> collects from \<open>navigator\<close>, \<open>screen\<close>, \<open>window\<close> and \<open>Intl\<close>.
\<close>

record env =
  date_now :: int
  date_iso :: string
  date_fullYear :: int
  date_month :: nat
  math_random :: "nat \<Rightarrow> rat"
  math_random36 :: "nat \<Rightarrow> string"
  date_parse :: "string \<Rightarrow> int option"
  location_href :: string
  device_info :: props

text \<open>
  A method that leaves through an early \<open>return\<close> after reporting an error is
  \<open>Rejected\<close>; one that runs to its end is \<open>Done\<close>.
\<close>

datatype outcome = Done | Rejected

subsection \<open>Access to the page and to the SDK\<close>

definition setValue :: "string \<Rightarrow> string \<Rightarrow> state \<Rightarrow> state" where
  "setValue i v s = s\<lparr>elem_value := (elem_value s)(i := v)\<rparr>"

definition setText :: "string \<Rightarrow> string \<Rightarrow> state \<Rightarrow> state" where
  "setText i v s = s\<lparr>elem_text := (elem_text s)(i := v)\<rparr>"

definition setDisabled :: "string \<Rightarrow> bool \<Rightarrow> state \<Rightarrow> state" where
  "setDisabled i b s = s\<lparr>elem_disabled := (elem_disabled s)(i := b)\<rparr>"

definition setClass :: "string \<Rightarrow> string \<Rightarrow> state \<Rightarrow> state" where
  "setClass i v s = s\<lparr>elem_class := (elem_class s)(i := v)\<rparr>"

definition setDisplay :: "string \<Rightarrow> string \<Rightarrow> state \<Rightarrow> state" where
  "setDisplay i v s = s\<lparr>elem_display := (elem_display s)(i := v)\<rparr>"

text \<open>\<open>if (window.appInsights) { appInsights.track...(item) }\<close>\<close>

definition track :: "telemetry \<Rightarrow> state \<Rightarrow> state" where
  "track t s = (if appInsights s then s\<lparr>telemetry := telemetry s @ [t]\<rparr> else s)"

text \<open>\<open>showStatus(message, type)\<close>; the timer that hides the line again is not modelled.\<close>

definition showStatus :: "string \<Rightarrow> string \<Rightarrow> state \<Rightarrow> state" where
  "showStatus message type s =
     setDisplay ''statusDisplay'' ''block''
       (setText ''statusDisplay'' message
         (setClass ''statusDisplay'' (''status '' @ type) s))"

subsection \<open>Identity and session\<close>

definition generateSessionId :: "env \<Rightarrow> string" where
  "generateSessionId e = ''session_'' @ show_int (date_now e) @ ''_'' @ math_random36 e 0"

definition getOrCreateUserId :: "env \<Rightarrow> (string \<rightharpoonup> string) \<Rightarrow> string \<times> (string \<rightharpoonup> string)" where
  "getOrCreateUserId e st =
     (if falsy (st ''app_insights_user_id'') then
        (let userId = ''user_'' @ show_int (date_now e) @ ''_'' @ math_random36 e 0
         in (userId, st(''app_insights_user_id'' \<mapsto> userId)))
      else (the (st ''app_insights_user_id''), st))"

subsection \<open>Web metrics\<close>

definition trackPageView :: "string \<Rightarrow> env \<Rightarrow> state \<Rightarrow> state" where
  "trackPageView pageName e s0 =
     (let s1 = s0\<lparr>pageViewCount := pageViewCount s0 + 1\<rparr>;
          s2 = s1\<lparr>metrics := (metrics s1)\<lparr>pageViews := pageViews (metrics s1) + 1\<rparr>\<rparr>;
          duration = date_now e - sessionStartTime s2;
          isFirstView = (pageViewCount s2 = 1);
          s3 = track (ai_trackPageView pageName (location_href e)
                 [(''sessionId'', Str (sessionId s2)),
                  (''pageNumber'', Number (Num (of_nat (pageViewCount s2)))),
                  (''isFirstView'', Boolean isFirstView)]
                 [(''timeOnPage'', Num (of_int duration))]) s2;
          s4 = setText ''pageViews'' (show_nat (pageViews (metrics s3))) s3
      in showStatus (''Page view tracked: '' @ pageName) ''success'' s4)"

definition simulateNewVisitor :: "env \<Rightarrow> state \<Rightarrow> state" where
  "simulateNewVisitor e s0 =
     (let s1 = s0\<lparr>localStorage := (localStorage s0)(''app_insights_user_id'' := None)\<rparr>;
          s2 = s1\<lparr>localStorage := (localStorage s1)(''visitor_type'' := None)\<rparr>;
          s3 = s2\<lparr>localStorage := (localStorage s2)(''visitor_type'' \<mapsto> ''new'')\<rparr>;
          s4 = track (ai_trackEvent ''NewVisitorAcquisition''
                 [(''visitorType'', Str ''new''),
                  (''trafficSource'', Str ''organic''),
                  (''sessionId'', Str (sessionId s3))] []) s3
      in showStatus ''New visitor simulation tracked'' ''success'' s4)"

text \<open>Whole days between two instants in milliseconds: \<open>Math.floor((a - b) / 86400000)\<close>.\<close>

fun daysBetween :: "int \<Rightarrow> int option \<Rightarrow> int option" where
  "daysBetween a None = None"
| "daysBetween a (Some b) = Some ((a - b) div (1000 * 60 * 60 * 24))"

definition simulateReturningVisitor :: "env \<Rightarrow> state \<Rightarrow> state" where
  "simulateReturningVisitor e s0 =
     (let s1 = s0\<lparr>localStorage := (localStorage s0)(''visitor_type'' \<mapsto> ''returning'')\<rparr>;
          lastVisit = localStorage s1 ''last_visit'';
          daysSinceLastVisit =
            (if falsy lastVisit then Some 0
             else daysBetween (date_now e) (parseInt (the lastVisit)));
          s2 = track (ai_trackEvent ''ReturningVisitorEngagement''
                 [(''visitorType'', Str ''returning''),
                  (''sessionId'', Str (sessionId s1))]
                 [(''daysSinceLastVisit'', intnum daysSinceLastVisit)]) s1;
          s3 = s2\<lparr>localStorage := (localStorage s2)(''last_visit'' \<mapsto> show_int (date_now e))\<rparr>
      in showStatus (''Returning visitor tracked ('' @ show_intnum daysSinceLastVisit
                       @ '' days since last visit)'') ''success'' s3)"

definition simulateBounce :: "env \<Rightarrow> state \<Rightarrow> state" where
  "simulateBounce e s0 =
     (let timeOnPage = date_now e - sessionStartTime s0;
          s1 = track (ai_trackEvent ''BounceEvent''
                 [(''exitReason'', Str ''immediate_exit''),
                  (''sessionId'', Str (sessionId s0))]
                 [(''timeOnPageMs'', Num (of_int timeOnPage)),
                  (''pageViewsInSession'', Num (of_nat (pageViewCount s0)))]) s0
      in showStatus ''Bounce event tracked (user left immediately)'' ''error'' s1)"

definition trackTimeOnPage :: "env \<Rightarrow> state \<Rightarrow> state" where
  "trackTimeOnPage e s0 =
     (let timeOnPage = date_now e - sessionStartTime s0;
          s1 = track (ai_trackMetric ''TimeOnPage'' (Num (of_int timeOnPage))
                 [(''sessionId'', Str (sessionId s0)),
                  (''pageName'', Str ''Home'')]) s0
      in showStatus (''Time on page tracked: '' @ show_int (timeOnPage div 1000) @ '' seconds'')
           ''success'' s1)"

subsection \<open>The purchase journey\<close>

definition submitQuoteRequest :: "env \<Rightarrow> state \<Rightarrow> outcome \<times> state" where
  "submitQuoteRequest e s0 =
     (let customerName = elem_value s0 ''customerName'';
          insuranceType = elem_value s0 ''insuranceType'';
          coverageAmount = elem_value s0 ''coverageAmount''
      in if customerName = [] \<or> insuranceType = [] \<or> coverageAmount = [] then
           (Rejected, showStatus ''Please fill in all fields'' ''error'' s0)
         else
           (let s1 = s0\<lparr>currentQuoteId := Some (''quote_'' @ show_int (date_now e))\<rparr>;
                s2 = s1\<lparr>metrics := (metrics s1)\<lparr>quoteRequests := quoteRequests (metrics s1) + 1\<rparr>\<rparr>;
                s3 = track (ai_trackEvent ''QuoteRequested''
                       [(''quoteId'', optval (currentQuoteId s2)),
                        (''insuranceType'', Str insuranceType),
                        (''sessionId'', Str (sessionId s2))]
                       [(''coverageAmount'', parseFloat coverageAmount)]) s2;
                s4 = setText ''quoteRequests'' (show_nat (quoteRequests (metrics s3))) s3;
                s5 = setValue ''applicationId'' (optstr (currentQuoteId s4)) s4;
                s6 = setDisabled ''startAppBtn'' False s5
            in (Done, showStatus (''Quote request submitted: '' @ optstr (currentQuoteId s6))
                        ''success'' s6)))"

definition startApplication :: "env \<Rightarrow> state \<Rightarrow> outcome \<times> state" where
  "startApplication e s0 =
     (if falsy (currentQuoteId s0) then
        (Rejected, showStatus ''Please request a quote first'' ''error'' s0)
      else
        (let s1 = s0\<lparr>currentApplicationId := Some (''app_'' @ show_int (date_now e))\<rparr>;
             s2 = s1\<lparr>metrics := (metrics s1)\<lparr>applicationsStarted := applicationsStarted (metrics s1) + 1\<rparr>\<rparr>;
             s3 = track (ai_trackEvent ''ApplicationStarted''
                    [(''applicationId'', optval (currentApplicationId s2)),
                     (''quoteId'', optval (currentQuoteId s2)),
                     (''sessionId'', Str (sessionId s2))] []) s2;
             s4 = track (ai_trackEvent ''FunnelStep''
                    [(''step'', Str ''application_started''),
                     (''funnelId'', optval (currentQuoteId s3)),
                     (''sessionId'', Str (sessionId s3))] []) s3;
             s5 = setText ''applicationsStarted'' (show_nat (applicationsStarted (metrics s4))) s4;
             s6 = setDisabled ''completeAppBtn'' False s5
         in (Done, showStatus ''Application started successfully'' ''success'' s6)))"

definition completeApplication :: "env \<Rightarrow> state \<Rightarrow> outcome \<times> state" where
  "completeApplication e s0 =
     (if falsy (currentApplicationId s0) then
        (Rejected, showStatus ''Please start an application first'' ''error'' s0)
      else if elem_value s0 ''personalInfo'' = [] then
        (Rejected, showStatus ''Please fill in personal information'' ''error'' s0)
      else
        (let s1 = s0\<lparr>metrics := (metrics s0)\<lparr>applicationsCompleted := applicationsCompleted (metrics s0) + 1\<rparr>\<rparr>;
             timeToComplete = date_now e - sessionStartTime s1;
             s2 = track (ai_trackEvent ''ApplicationCompleted''
                    [(''applicationId'', optval (currentApplicationId s1)),
                     (''quoteId'', optval (currentQuoteId s1)),
                     (''sessionId'', Str (sessionId s1))]
                    [(''timeToCompleteMs'', Num (of_int timeToComplete))]) s1;
             s3 = track (ai_trackEvent ''FunnelStep''
                    [(''step'', Str ''application_completed''),
                     (''funnelId'', optval (currentQuoteId s2)),
                     (''sessionId'', Str (sessionId s2))] []) s2;
             s4 = setText ''applicationsCompleted'' (show_nat (applicationsCompleted (metrics s3))) s3;
             s5 = setDisabled ''purchaseBtn'' False s4
         in (Done, showStatus ''Application completed successfully'' ''success'' s5)))"

definition resetPurchaseJourney :: "state \<Rightarrow> state" where
  "resetPurchaseJourney s0 =
     (let s1 = s0\<lparr>currentQuoteId := None\<rparr>;
          s2 = s1\<lparr>currentApplicationId := None\<rparr>;
          s3 = setValue ''customerName'' [] s2;
          s4 = setValue ''insuranceType'' [] s3;
          s5 = setValue ''coverageAmount'' [] s4;
          s6 = setValue ''applicationId'' [] s5;
          s7 = setValue ''personalInfo'' [] s6;
          s8 = setDisabled ''startAppBtn'' True s7;
          s9 = setDisabled ''completeAppBtn'' True s8
      in setDisabled ''purchaseBtn'' True s9)"

definition purchasePolicy :: "env \<Rightarrow> state \<Rightarrow> outcome \<times> state" where
  "purchasePolicy e s0 =
     (if falsy (currentApplicationId s0) then
        (Rejected, showStatus ''Please complete an application first'' ''error'' s0)
      else
        (let policyId = ''policy_'' @ show_int (date_now e);
             s1 = s0\<lparr>metrics := (metrics s0)\<lparr>policiesSold := policiesSold (metrics s0) + 1\<rparr>\<rparr>;
             timeToConvert = date_now e - sessionStartTime s1;
             s2 = track (ai_trackEvent ''PolicyPurchased''
                    [(''policyId'', Str policyId),
                     (''applicationId'', optval (currentApplicationId s1)),
                     (''quoteId'', optval (currentQuoteId s1)),
                     (''sessionId'', Str (sessionId s1))]
                    [(''timeToConvertMs'', Num (of_int timeToConvert))]) s1;
             s3 = track (ai_trackEvent ''Conversion''
                    [(''conversionType'', Str ''policy_purchase''),
                     (''funnelId'', optval (currentQuoteId s2)),
                     (''sessionId'', Str (sessionId s2))]
                    [(''conversionValue'', orZero (parseFloat (elem_value s2 ''coverageAmount'')))]) s2;
             s4 = track (ai_trackEvent ''FunnelStep''
                    [(''step'', Str ''purchase_completed''),
                     (''funnelId'', optval (currentQuoteId s3)),
                     (''sessionId'', Str (sessionId s3))] []) s3;
             s5 = setText ''policiesSold'' (show_nat (policiesSold (metrics s4))) s4;
             s6 = resetPurchaseJourney s5
         in (Done, showStatus (''Policy purchased successfully: '' @ policyId) ''success'' s6)))"

subsection \<open>A/B test and performance\<close>

text \<open>\<open>toUpperCase()\<close> on the letters of ASCII (other characters are left as they are).\<close>

definition upper_char :: "char \<Rightarrow> char" where
  "upper_char c =
     (if (97::nat) \<le> of_char c \<and> of_char c \<le> (122::nat) then char_of (of_char c - (32::nat)) else c)"

definition toUpperCase :: "string \<Rightarrow> string" where
  "toUpperCase s = map upper_char s"

text \<open>
  \<open>x.toFixed(f)\<close> for a finite \<open>x\<close> below \<open>10^21\<close> in size: the nearest multiple of
  \<open>10^-f\<close>, the larger one on a tie, with exactly \<open>f\<close> digits after the point.
\<close>

definition toFixedAbs :: "nat \<Rightarrow> rat \<Rightarrow> string" where
  "toFixedAbs f x =
     (let n = nat \<lfloor>x * 10 ^ f + 1 / 2\<rfloor>;
          m = padStart (f + 1) CHR ''0'' (show_nat n)
      in if f = 0 then m
         else take (length m - f) m @ ''.'' @ drop (length m - f) m)"

definition toFixed :: "nat \<Rightarrow> rat \<Rightarrow> string" where
  "toFixed f x = (if x < 0 then CHR ''-'' # toFixedAbs f (- x) else toFixedAbs f x)"

text \<open>
  The literals \<open>0.15\<close> and \<open>0.22\<close> denote the doubles nearest to them, and the comparison
  with the random draw is between doubles; these are their exact values.
\<close>

definition double_0_15 :: rat where
  "double_0_15 = 5404319552844595 / 2 ^ 55"

definition double_0_22 :: rat where
  "double_0_22 = 7926335344172073 / 2 ^ 55"

definition conversionRate :: "string \<Rightarrow> rat" where
  "conversionRate variant = (if variant = ''variant_a'' then double_0_15 else double_0_22)"

definition runABTest :: "string \<Rightarrow> env \<Rightarrow> state \<Rightarrow> state" where
  "runABTest variant e s0 =
     (let s1 = track (ai_trackEvent ''ABTestParticipation''
                 [(''testName'', Str ''homepage_cta_test''),
                  (''variant'', Str variant),
                  (''sessionId'', Str (sessionId s0))] []) s0;
          converted = (math_random e 0 < conversionRate variant);
          s2 = (if converted then
                  track (ai_trackEvent ''ABTestConversion''
                    [(''testName'', Str ''homepage_cta_test''),
                     (''variant'', Str variant),
                     (''sessionId'', Str (sessionId s1))] []) s1
                else s1);
          s3 = setDisplay ''abTestResults'' ''block'' s2;
          s4 = setClass ''abTestResults'' (if converted then ''status success'' else ''status'') s3
      in setText ''abTestResults''
           (''A/B Test '' @ toUpperCase variant @ '': ''
              @ (if converted then ''Converted!'' else ''No conversion'')
              @ '' (Simulated rate: '' @ toFixed 1 (conversionRate variant * 100) @ ''%)'') s4)"

definition measurePageLoad :: "env \<Rightarrow> state \<Rightarrow> state" where
  "measurePageLoad e s0 =
     (let loadTime = math_random e 0 * 3000 + 500;
          s1 = track (ai_trackMetric ''PageLoadTime'' (Num loadTime)
                 [(''pageName'', Str ''Home''),
                  (''sessionId'', Str (sessionId s0))]) s0;
          s2 = track (ai_trackPageViewPerformance ''HomePage'' (location_href e)
                 [(''duration'', Num loadTime),
                  (''perfTotal'', Num loadTime),
                  (''networkConnect'', Num (loadTime * (1 / 10))),
                  (''sentRequest'', Num (loadTime * (2 / 10))),
                  (''receivedResponse'', Num (loadTime * (3 / 10))),
                  (''domProcessing'', Num (loadTime * (4 / 10)))]) s1
      in showStatus (''Page load time measured: '' @ toFixed 0 loadTime @ ''ms'') ''success'' s2)"

definition simulateError :: "env \<Rightarrow> state \<Rightarrow> state" where
  "simulateError e s0 =
     (let s1 = track (ai_trackException ''This is a simulated error for demonstration purposes''
                 [(''errorType'', Str ''simulated_client_error''),
                  (''sessionId'', Str (sessionId s0)),
                  (''isSimulated'', Boolean True)]) s0
      in showStatus ''Error simulation tracked in Application Insights'' ''error'' s1)"

subsection \<open>Device and segmentation\<close>

definition trackDeviceInfo :: "env \<Rightarrow> state \<Rightarrow> state" where
  "trackDeviceInfo e s0 =
     (let s1 = track (ai_trackEvent ''DeviceInfo''
                 (device_info e @ [(''sessionId'', Str (sessionId s0))]) []) s0
      in setDisplay ''deviceInfo'' ''block'' s1)"

definition segments :: "string list" where
  "segments = [''high_value'', ''mobile_user'', ''enterprise'', ''small_business'']"

text \<open>\<open>segments[Math.floor(Math.random() * segments.length)]\<close>; outside the list it is \<open>undefined\<close>.\<close>

definition randomSegment :: "env \<Rightarrow> string option" where
  "randomSegment e =
     (let i = \<lfloor>math_random e 0 * of_nat (length segments)\<rfloor>
      in if 0 \<le> i \<and> i < int (length segments) then Some (segments ! nat i) else None)"

definition trackCustomSegment :: "env \<Rightarrow> state \<Rightarrow> state" where
  "trackCustomSegment e s0 =
     (let seg = randomSegment e;
          s1 = track (ai_trackEvent ''UserSegmentation''
                 ((case seg of None \<Rightarrow> [] | Some g \<Rightarrow> [(''segment'', Str g)])
                  @ [(''sessionId'', Str (sessionId s0)),
                     (''assignmentReason'', Str ''behavioral_analysis'')]) []) s0
      in showStatus (''User assigned to segment: ''
                       @ (case seg of None \<Rightarrow> ''undefined'' | Some g \<Rightarrow> g)) ''success'' s1)"

subsection \<open>Cohorts\<close>

definition getCohortId :: "env \<Rightarrow> string" where
  "getCohortId e =
     ''cohort_'' @ show_int (date_fullYear e) @ ''_''
       @ padStart 2 CHR ''0'' (show_nat (date_month e + 1))"

definition joinCohort :: "env \<Rightarrow> state \<Rightarrow> state" where
  "joinCohort e s0 =
     (let cohortId = getCohortId e;
          joinDate = date_iso e;
          s1 = track (ai_trackEvent ''CohortJoin''
                 [(''cohortId'', Str cohortId),
                  (''joinDate'', Str joinDate),
                  (''sessionId'', Str (sessionId s0))] []) s0;
          s2 = s1\<lparr>localStorage := (localStorage s1)(''user_cohort'' \<mapsto> cohortId)\<rparr>;
          s3 = s2\<lparr>localStorage := (localStorage s2)(''cohort_join_date'' \<mapsto> joinDate)\<rparr>;
          s4 = setDisplay ''cohortInfo'' ''block'' s3
      in showStatus (''Joined cohort: '' @ cohortId) ''success'' s4)"

definition trackRetention :: "env \<Rightarrow> state \<Rightarrow> outcome \<times> state" where
  "trackRetention e s0 =
     (let cohortId = localStorage s0 ''user_cohort'';
          joinDate = localStorage s0 ''cohort_join_date''
      in if falsy cohortId \<or> falsy joinDate then
           (Rejected, showStatus ''Please join a cohort first'' ''error'' s0)
         else
           (let daysSinceJoin = daysBetween (date_now e) (date_parse e (the joinDate));
                s1 = track (ai_trackEvent ''CohortRetention''
                       [(''cohortId'', optval cohortId),
                        (''sessionId'', Str (sessionId s0)),
                        (''retentionEvent'', Str ''active_engagement'')]
                       [(''daysSinceJoin'', intnum daysSinceJoin)]) s0
            in (Done, showStatus (''Retention event tracked (Day '' @ show_intnum daysSinceJoin
                                    @ '' since joining cohort)'') ''success'' s1)))"

definition viewCohortData :: "env \<Rightarrow> state \<Rightarrow> outcome \<times> state" where
  "viewCohortData e s0 =
     (let cohortId = localStorage s0 ''user_cohort''
      in if falsy cohortId then
           (Rejected, showStatus ''No cohort data available. Please join a cohort first.'' ''error'' s0)
         else
           (let totalMembers = \<lfloor>math_random e 0 * 1000\<rfloor> + 100;
                activeMembers = \<lfloor>math_random e 1 * 500\<rfloor> + 50;
                retentionRate = toFixed 2 (math_random e 2 * (4 / 10) + 3 / 10);
                avgSessionDuration = \<lfloor>math_random e 3 * 300\<rfloor> + 120;
                s1 = track (ai_trackEvent ''CohortAnalysisView''
                       [(''cohortId'', optval cohortId),
                        (''sessionId'', Str (sessionId s0))]
                       [(''totalMembers'', Num (of_int totalMembers)),
                        (''activeMembers'', Num (of_int activeMembers)),
                        (''retentionRate'', parseFloat retentionRate),
                        (''avgSessionDuration'', Num (of_int avgSessionDuration))]) s0;
                s2 = setDisplay ''cohortInfo'' ''block'' s1
            in (Done, showStatus ''Cohort analytics data displayed'' ''success'' s2)))"

subsection \<open>Construction\<close>

text \<open>The surroundings after one result of \<open>Math.random()\<close> has been used.\<close>

definition after_draw :: "env \<Rightarrow> env" where
  "after_draw e =
     e\<lparr>math_random := (\<lambda>k. math_random e (Suc k)),
       math_random36 := (\<lambda>k. math_random36 e (Suc k))\<rparr>"

text \<open>
  \<open>initializeTracking()\<close>: the telemetry initializer it registers belongs to the SDK;
  what remains is the call of \<open>trackDeviceInfo()\<close>.
\<close>

definition initializeTracking :: "env \<Rightarrow> state \<Rightarrow> state" where
  "initializeTracking e s = trackDeviceInfo e s"

text \<open>
  \<open>new AnalyticsManager()\<close> on a page in state \<open>s0\<close>: the object's fields are set, whatever
  an earlier object had left in them.
\<close>

definition newAnalyticsManager :: "env \<Rightarrow> state \<Rightarrow> state" where
  "newAnalyticsManager e s0 =
     (let s1 = s0\<lparr>sessionId := generateSessionId e\<rparr>;
          (u, st) = getOrCreateUserId (after_draw e) (localStorage s1);
          s2 = s1\<lparr>userId := u, localStorage := st\<rparr>;
          s3 = s2\<lparr>pageViewCount := 0\<rparr>;
          s4 = s3\<lparr>sessionStartTime := date_now e\<rparr>;
          s5 = s4\<lparr>currentQuoteId := None\<rparr>;
          s6 = s5\<lparr>currentApplicationId := None\<rparr>;
          s7 = s6\<lparr>metrics := \<lparr>pageViews = 0, quoteRequests = 0, applicationsStarted = 0,
                                  applicationsCompleted = 0, policiesSold = 0\<rparr>\<rparr>
      in initializeTracking e s7)"

text \<open>
  The page as its HTML gives it, before any script has run: empty fields, the three
  journey buttons disabled, the counters at \<open>0\<close>, the panels hidden. The argument says
  whether the SDK is loaded; the second is the content of \<open>localStorage\<close>.
\<close>

definition page :: "bool \<Rightarrow> (string \<rightharpoonup> string) \<Rightarrow> state" where
  "page ai st =
     \<lparr>sessionId = [], userId = [], pageViewCount = 0, sessionStartTime = 0,
      currentQuoteId = None, currentApplicationId = None,
      metrics = \<lparr>pageViews = 0, quoteRequests = 0, applicationsStarted = 0,
                 applicationsCompleted = 0, policiesSold = 0\<rparr>,
      appInsights = ai, telemetry = [], localStorage = st,
      elem_value = (\<lambda>i. []),
      elem_text = (\<lambda>i. if i \<in> {''pageViews'', ''quoteRequests'', ''applicationsStarted'',
                                  ''applicationsCompleted'', ''policiesSold''} then ''0''
                          else if i = ''sessionCount'' then ''1''
                          else if i = ''timeOnPage'' then ''0s'' else []),
      elem_disabled = (\<lambda>i. i \<in> {''startAppBtn'', ''completeAppBtn'', ''purchaseBtn''}),
      elem_class = (\<lambda>i. if i = ''abTestResults'' then ''status''
                           else if i \<in> {''deviceInfo'', ''cohortInfo''} then ''cohort-section''
                           else []),
      elem_display = (\<lambda>i. if i \<in> {''abTestResults'', ''deviceInfo'', ''cohortInfo''} then ''none''
                             else [])\<rparr>"

subsection \<open>Sequences of calls\<close>

text \<open>
  The global functions of the script, one constructor each, and \<open>Input i v\<close>: the
  \<open>value\<close> of the element with id \<open>i\<close> becomes \<open>v\<close> (typed by the user or set by a
  script). What the browser's input types do to a typed text is not modelled; the
  methods read the \<open>value\<close> as a string.
\<close>

datatype call =
    Call_trackPageView string
  | Call_simulateNewVisitor
  | Call_simulateReturningVisitor
  | Call_simulateBounce
  | Call_trackTimeOnPage
  | Call_submitQuoteRequest
  | Call_startApplication
  | Call_completeApplication
  | Call_purchasePolicy
  | Call_runABTest string
  | Call_measurePageLoad
  | Call_simulateError
  | Call_trackDeviceInfo
  | Call_trackCustomSegment
  | Call_joinCohort
  | Call_trackRetention
  | Call_viewCohortData
  | Input string string

fun step :: "call \<Rightarrow> env \<Rightarrow> state \<Rightarrow> outcome \<times> state" where
  "step (Call_trackPageView n) e s = (Done, trackPageView n e s)"
| "step Call_simulateNewVisitor e s = (Done, simulateNewVisitor e s)"
| "step Call_simulateReturningVisitor e s = (Done, simulateReturningVisitor e s)"
| "step Call_simulateBounce e s = (Done, simulateBounce e s)"
| "step Call_trackTimeOnPage e s = (Done, trackTimeOnPage e s)"
| "step Call_submitQuoteRequest e s = submitQuoteRequest e s"
| "step Call_startApplication e s = startApplication e s"
| "step Call_completeApplication e s = completeApplication e s"
| "step Call_purchasePolicy e s = purchasePolicy e s"
| "step (Call_runABTest v) e s = (Done, runABTest v e s)"
| "step Call_measurePageLoad e s = (Done, measurePageLoad e s)"
| "step Call_simulateError e s = (Done, simulateError e s)"
| "step Call_trackDeviceInfo e s = (Done, trackDeviceInfo e s)"
| "step Call_trackCustomSegment e s = (Done, trackCustomSegment e s)"
| "step Call_joinCohort e s = (Done, joinCohort e s)"
| "step Call_trackRetention e s = trackRetention e s"
| "step Call_viewCohortData e s = viewCohortData e s"
| "step (Input i v) e s = (Done, setValue i v s)"

text \<open>The state after a sequence of calls, each with its surroundings.\<close>

fun run :: "(call \<times> env) list \<Rightarrow> state \<Rightarrow> state" where
  "run [] s = s"
| "run ((c, e) # cs) s = run cs (snd (step c e s))"

text \<open>The outcomes of the calls of a sequence, in order.\<close>

fun outcomes :: "(call \<times> env) list \<Rightarrow> state \<Rightarrow> outcome list" where
  "outcomes [] s = []"
| "outcomes ((c, e) # cs) s = fst (step c e s) # outcomes cs (snd (step c e s))"

text \<open>How many calls of a sequence are calls of \<open>c\<close> that run to their end.\<close>

fun successes :: "call \<Rightarrow> (call \<times> env) list \<Rightarrow> state \<Rightarrow> nat" where
  "successes c [] s = 0"
| "successes c ((c', e) # cs) s =
     (if c' = c \<and> fst (step c' e s) = Done then 1 else 0) + successes c cs (snd (step c' e s))"

subsection \<open>The invariant of the journey, and example data\<close>

text \<open>An application id is present only together with a quote id.\<close>

definition funnel_invariant :: "state \<Rightarrow> bool" where
  "funnel_invariant s = (currentApplicationId s \<noteq> None \<longrightarrow> currentQuoteId s \<noteq> None)"

text \<open>
  Surroundings for the examples: the clock reads \<open>t\<close>, every random draw is \<open>r\<close>, and the
  date is the 15th of March 2024.
\<close>

definition example_env :: "int \<Rightarrow> rat \<Rightarrow> env" where
  "example_env t r =
     \<lparr>date_now = t, date_iso = ''2024-03-15T09:30:00.000Z'', date_fullYear = 2024,
      date_month = 2, math_random = (\<lambda>k. r), math_random36 = (\<lambda>k. ''k3j9x2m1q''),
      date_parse = (\<lambda>s. if s = ''2024-03-15T09:30:00.000Z'' then Some 1710495000000 else None),
      location_href = ''http://localhost:3000/'', device_info = []\<rparr>"

text \<open>A fresh session: the object constructed on the page as loaded, with the SDK present.\<close>

definition example_session :: state where
  "example_session = newAnalyticsManager (example_env 1000 (1 / 2)) (page True Map.empty)"

text \<open>The quote form is filled in and sent, and an application is started.\<close>

definition quote_and_start :: "(call \<times> env) list" where
  "quote_and_start =
     [(Input ''customerName'' ''Alice'', example_env 2000 (1 / 2)),
      (Input ''insuranceType'' ''auto'', example_env 2000 (1 / 2)),
      (Input ''coverageAmount'' ''50000'', example_env 2000 (1 / 2)),
      (Call_submitQuoteRequest, example_env 3000 (1 / 2)),
      (Call_startApplication, example_env 4000 (1 / 2))]"

text \<open>The application is then completed, and a second application is started.\<close>

definition restart_and_purchase :: "(call \<times> env) list" where
  "restart_and_purchase =
     quote_and_start @
     [(Input ''personalInfo'' ''Alice Smith, 123 Main St'', example_env 4500 (1 / 2)),
      (Call_completeApplication, example_env 5000 (1 / 2)),
      (Call_startApplication, example_env 6000 (1 / 2))]"


text \<open>\<open>completeApplication()\<close> called once for each of the given surroundings.\<close>

definition completions :: "env list \<Rightarrow> (call \<times> env) list" where
  "completions es = map (\<lambda>e. (Call_completeApplication, e)) es"

section \<open>Properties\<close>

subsection \<open>What each call does to the fields\<close>

lemmas page_ops = setValue_def setText_def setDisabled_def setClass_def setDisplay_def
  track_def showStatus_def

lemmas method_defs = trackPageView_def simulateNewVisitor_def simulateReturningVisitor_def
  simulateBounce_def trackTimeOnPage_def submitQuoteRequest_def startApplication_def
  completeApplication_def purchasePolicy_def resetPurchaseJourney_def runABTest_def
  measurePageLoad_def simulateError_def trackDeviceInfo_def trackCustomSegment_def
  joinCohort_def trackRetention_def viewCohortData_def

lemma showStatus_keeps [simp]:
  "metrics (showStatus m t s) = metrics s"
  "currentQuoteId (showStatus m t s) = currentQuoteId s"
  "currentApplicationId (showStatus m t s) = currentApplicationId s"
  "telemetry (showStatus m t s) = telemetry s"
  "localStorage (showStatus m t s) = localStorage s"
  "appInsights (showStatus m t s) = appInsights s"
  "sessionId (showStatus m t s) = sessionId s"
  "userId (showStatus m t s) = userId s"
  "pageViewCount (showStatus m t s) = pageViewCount s"
  "sessionStartTime (showStatus m t s) = sessionStartTime s"
  "elem_value (showStatus m t s) = elem_value s"
  "elem_disabled (showStatus m t s) = elem_disabled s"
  by (simp_all add: page_ops)

lemma metrics_step:
  "metrics (snd (step c e s)) =
     (if fst (step c e s) = Rejected then metrics s
      else case c of
        Call_trackPageView n \<Rightarrow> (metrics s)\<lparr>pageViews := pageViews (metrics s) + 1\<rparr>
      | Call_submitQuoteRequest \<Rightarrow> (metrics s)\<lparr>quoteRequests := quoteRequests (metrics s) + 1\<rparr>
      | Call_startApplication \<Rightarrow> (metrics s)\<lparr>applicationsStarted := applicationsStarted (metrics s) + 1\<rparr>
      | Call_completeApplication \<Rightarrow> (metrics s)\<lparr>applicationsCompleted := applicationsCompleted (metrics s) + 1\<rparr>
      | Call_purchasePolicy \<Rightarrow> (metrics s)\<lparr>policiesSold := policiesSold (metrics s) + 1\<rparr>
      | _ \<Rightarrow> metrics s)"
  by (cases c) (simp_all add: method_defs page_ops Let_def)

lemma quoteId_step:
  "currentQuoteId (snd (step c e s)) =
     (if fst (step c e s) = Rejected then currentQuoteId s
      else case c of
        Call_submitQuoteRequest \<Rightarrow> Some (''quote_'' @ show_int (date_now e))
      | Call_purchasePolicy \<Rightarrow> None
      | _ \<Rightarrow> currentQuoteId s)"
  by (cases c) (simp_all add: method_defs page_ops Let_def)

lemma applicationId_step:
  "currentApplicationId (snd (step c e s)) =
     (if fst (step c e s) = Rejected then currentApplicationId s
      else case c of
        Call_startApplication \<Rightarrow> Some (''app_'' @ show_int (date_now e))
      | Call_purchasePolicy \<Rightarrow> None
      | _ \<Rightarrow> currentApplicationId s)"
  by (cases c) (simp_all add: method_defs page_ops Let_def)

lemma elem_disabled_step:
  "elem_disabled (snd (step c e s)) =
     (if fst (step c e s) = Rejected then elem_disabled s
      else case c of
        Call_submitQuoteRequest \<Rightarrow> (elem_disabled s)(''startAppBtn'' := False)
      | Call_startApplication \<Rightarrow> (elem_disabled s)(''completeAppBtn'' := False)
      | Call_completeApplication \<Rightarrow> (elem_disabled s)(''purchaseBtn'' := False)
      | Call_purchasePolicy \<Rightarrow>
          (elem_disabled s)(''startAppBtn'' := True, ''completeAppBtn'' := True,
             ''purchaseBtn'' := True)
      | _ \<Rightarrow> elem_disabled s)"
  by (cases c) (simp_all add: method_defs page_ops Let_def)

lemma outcome_step:
  "fst (step c e s) =
     (case c of
        Call_submitQuoteRequest \<Rightarrow>
          if elem_value s ''customerName'' = [] \<or> elem_value s ''insuranceType'' = []
             \<or> elem_value s ''coverageAmount'' = [] then Rejected else Done
      | Call_startApplication \<Rightarrow> if falsy (currentQuoteId s) then Rejected else Done
      | Call_completeApplication \<Rightarrow>
          if falsy (currentApplicationId s) \<or> elem_value s ''personalInfo'' = []
          then Rejected else Done
      | Call_purchasePolicy \<Rightarrow> if falsy (currentApplicationId s) then Rejected else Done
      | Call_trackRetention \<Rightarrow>
          if falsy (localStorage s ''user_cohort'') \<or> falsy (localStorage s ''cohort_join_date'')
          then Rejected else Done
      | Call_viewCohortData \<Rightarrow> if falsy (localStorage s ''user_cohort'') then Rejected else Done
      | _ \<Rightarrow> Done)"
  by (cases c) (simp_all add: method_defs Let_def)

lemma elem_value_step:
  "elem_value (snd (step c e s)) =
     (if fst (step c e s) = Rejected then elem_value s
      else case c of
        Input i v \<Rightarrow> (elem_value s)(i := v)
      | Call_submitQuoteRequest \<Rightarrow>
          (elem_value s)(''applicationId'' := ''quote_'' @ show_int (date_now e))
      | Call_purchasePolicy \<Rightarrow>
          (elem_value s)(''customerName'' := [], ''insuranceType'' := [], ''coverageAmount'' := [],
             ''applicationId'' := [], ''personalInfo'' := [])
      | _ \<Rightarrow> elem_value s)"
  by (cases c) (simp_all add: method_defs page_ops Let_def)

lemma elem_value_new: "elem_value (newAnalyticsManager e s) = elem_value s"
  by (simp add: newAnalyticsManager_def initializeTracking_def trackDeviceInfo_def page_ops
        Let_def split: prod.splits)

lemma elem_value_page: "elem_value (page ai st) = (\<lambda>i. [])"
  by (simp add: page_def)

lemma startApplication_outcome:
  "fst (startApplication e s) = (if falsy (currentQuoteId s) then Rejected else Done)"
  by (simp add: startApplication_def Let_def)

lemma purchasePolicy_outcome:
  "fst (purchasePolicy e s) = (if falsy (currentApplicationId s) then Rejected else Done)"
  by (simp add: purchasePolicy_def Let_def)

lemma metrics_new:
  "metrics (newAnalyticsManager e s) =
     \<lparr>pageViews = 0, quoteRequests = 0, applicationsStarted = 0,
      applicationsCompleted = 0, policiesSold = 0\<rparr>"
  by (simp add: newAnalyticsManager_def initializeTracking_def trackDeviceInfo_def page_ops
        Let_def split: prod.splits)

lemma ids_new:
  "currentQuoteId (newAnalyticsManager e s) = None"
  "currentApplicationId (newAnalyticsManager e s) = None"
  by (simp_all add: newAnalyticsManager_def initializeTracking_def trackDeviceInfo_def page_ops
        Let_def split: prod.splits)

lemmas trace_simps = outcome_step elem_value_step quoteId_step applicationId_step metrics_step
  elem_value_new elem_value_page ids_new metrics_new

lemmas method_simps =
  outcome_step [of Call_submitQuoteRequest, simplified]
  outcome_step [of Call_startApplication, simplified]
  outcome_step [of Call_completeApplication, simplified]
  outcome_step [of Call_purchasePolicy, simplified]
  metrics_step [of Call_submitQuoteRequest, simplified]
  metrics_step [of Call_startApplication, simplified]
  metrics_step [of Call_completeApplication, simplified]
  metrics_step [of Call_purchasePolicy, simplified]
  quoteId_step [of Call_submitQuoteRequest, simplified]
  quoteId_step [of Call_startApplication, simplified]
  quoteId_step [of Call_completeApplication, simplified]
  quoteId_step [of Call_purchasePolicy, simplified]
  applicationId_step [of Call_submitQuoteRequest, simplified]
  applicationId_step [of Call_startApplication, simplified]
  applicationId_step [of Call_completeApplication, simplified]
  applicationId_step [of Call_purchasePolicy, simplified]

lemma example_env_fields:
  "date_now (example_env t r) = t"
  "date_fullYear (example_env t r) = 2024"
  "date_month (example_env t r) = 2"
  "math_random (example_env t r) k = r"
  "math_random36 (example_env t r) k = ''k3j9x2m1q''"
  by (simp_all add: example_env_def)

lemma show_int_examples:
  "show_int 3000 = ''3000''" "show_int 4000 = ''4000''" "show_int 6000 = ''6000''"
  by (simp_all add: show_int_def show_nat.simps digit_char_def)

lemma appInsights_step: "appInsights (snd (step c e s)) = appInsights s"
  by (cases c) (simp_all add: method_defs page_ops Let_def)


lemma localStorage_new:
  "localStorage (newAnalyticsManager e s) = snd (getOrCreateUserId (after_draw e) (localStorage s))"
  by (simp add: newAnalyticsManager_def initializeTracking_def trackDeviceInfo_def page_ops
        Let_def split: prod.splits)

lemma appInsights_new: "appInsights (newAnalyticsManager e s) = appInsights s"
  by (simp add: newAnalyticsManager_def initializeTracking_def trackDeviceInfo_def page_ops
        Let_def split: prod.splits)

lemma localStorage_example:
  "localStorage example_session ''user_cohort'' = None"
  "localStorage example_session ''cohort_join_date'' = None"
  by (simp_all add: example_session_def localStorage_new getOrCreateUserId_def page_def Let_def)

subsection \<open>Counters\<close>

lemma quoteRequests_step:
  "quoteRequests (metrics (snd (step c e s))) =
     quoteRequests (metrics s) + (if c = Call_submitQuoteRequest \<and> fst (step c e s) = Done then 1 else 0)"
  using metrics_step [of c e s] by (cases c; cases "fst (step c e s)"; simp)

lemma quoteRequests_run:
  "quoteRequests (metrics (run cs s)) = quoteRequests (metrics s) + successes Call_submitQuoteRequest cs s"
proof (induction cs arbitrary: s)
  case Nil
  show ?case by simp
next
  case (Cons a cs)
  obtain c e where a: "a = (c, e)" by (cases a)
  show ?case by (simp add: a Cons.IH quoteRequests_step)
qed

lemma applicationsStarted_step:
  "applicationsStarted (metrics (snd (step c e s))) =
     applicationsStarted (metrics s) + (if c = Call_startApplication \<and> fst (step c e s) = Done then 1 else 0)"
  using metrics_step [of c e s] by (cases c; cases "fst (step c e s)"; simp)

lemma applicationsStarted_run:
  "applicationsStarted (metrics (run cs s)) = applicationsStarted (metrics s) + successes Call_startApplication cs s"
proof (induction cs arbitrary: s)
  case Nil
  show ?case by simp
next
  case (Cons a cs)
  obtain c e where a: "a = (c, e)" by (cases a)
  show ?case by (simp add: a Cons.IH applicationsStarted_step)
qed

lemma applicationsCompleted_step:
  "applicationsCompleted (metrics (snd (step c e s))) =
     applicationsCompleted (metrics s) + (if c = Call_completeApplication \<and> fst (step c e s) = Done then 1 else 0)"
  using metrics_step [of c e s] by (cases c; cases "fst (step c e s)"; simp)

lemma applicationsCompleted_run:
  "applicationsCompleted (metrics (run cs s)) = applicationsCompleted (metrics s) + successes Call_completeApplication cs s"
proof (induction cs arbitrary: s)
  case Nil
  show ?case by simp
next
  case (Cons a cs)
  obtain c e where a: "a = (c, e)" by (cases a)
  show ?case by (simp add: a Cons.IH applicationsCompleted_step)
qed

lemma policiesSold_step:
  "policiesSold (metrics (snd (step c e s))) =
     policiesSold (metrics s) + (if c = Call_purchasePolicy \<and> fst (step c e s) = Done then 1 else 0)"
  using metrics_step [of c e s] by (cases c; cases "fst (step c e s)"; simp)

lemma policiesSold_run:
  "policiesSold (metrics (run cs s)) = policiesSold (metrics s) + successes Call_purchasePolicy cs s"
proof (induction cs arbitrary: s)
  case Nil
  show ?case by simp
next
  case (Cons a cs)
  obtain c e where a: "a = (c, e)" by (cases a)
  show ?case by (simp add: a Cons.IH policiesSold_step)
qed

text \<open>
  C2. From a fresh session, after any sequence of calls, each of the four journey
  counters equals the number of calls of its method that ran to their end; no counter
  ever decreases; and a rejected call leaves all counters as they were.
\<close>

theorem counters_count_successful_calls:
  "quoteRequests (metrics (run cs (newAnalyticsManager e0 s0)))
     = successes Call_submitQuoteRequest cs (newAnalyticsManager e0 s0)
   \<and> applicationsStarted (metrics (run cs (newAnalyticsManager e0 s0)))
     = successes Call_startApplication cs (newAnalyticsManager e0 s0)
   \<and> applicationsCompleted (metrics (run cs (newAnalyticsManager e0 s0)))
     = successes Call_completeApplication cs (newAnalyticsManager e0 s0)
   \<and> policiesSold (metrics (run cs (newAnalyticsManager e0 s0)))
     = successes Call_purchasePolicy cs (newAnalyticsManager e0 s0)
   \<and> quoteRequests (metrics s) \<le> quoteRequests (metrics (run cs s))
   \<and> applicationsStarted (metrics s) \<le> applicationsStarted (metrics (run cs s))
   \<and> applicationsCompleted (metrics s) \<le> applicationsCompleted (metrics (run cs s))
   \<and> policiesSold (metrics s) \<le> policiesSold (metrics (run cs s))
   \<and> (fst (step c e s) = Rejected \<longrightarrow> metrics (snd (step c e s)) = metrics s)"
  by (simp add: quoteRequests_run applicationsStarted_run applicationsCompleted_run
        policiesSold_run metrics_new metrics_step)

theorem counters_count_successful_calls_witness:
  "fst (step Call_startApplication (example_env 2000 (1 / 2)) example_session) = Rejected
   \<and> metrics (snd (step Call_startApplication (example_env 2000 (1 / 2)) example_session))
       = metrics example_session
   \<and> quoteRequests (metrics (run quote_and_start example_session)) = 1
   \<and> applicationsStarted (metrics (run quote_and_start example_session)) = 1"
proof -
  have h: "fst (step Call_startApplication (example_env 2000 (1 / 2)) example_session) = Rejected"
    by (simp add: example_session_def trace_simps del: step.simps)
  have q: "successes Call_submitQuoteRequest quote_and_start example_session = 1"
    by (simp add: quote_and_start_def example_session_def trace_simps del: step.simps)
  have a: "successes Call_startApplication quote_and_start example_session = 1"
    by (simp add: quote_and_start_def example_session_def trace_simps del: step.simps)
  show ?thesis
    using h q a
      counters_count_successful_calls [of quote_and_start "example_env 1000 (1 / 2)"
        "page True Map.empty" example_session Call_startApplication "example_env 2000 (1 / 2)"]
    by (simp add: example_session_def del: step.simps)
qed

subsection \<open>The journey\<close>

text \<open>
  C1. The specification asks that \<open>purchasePolicy\<close> be rejected while the current application
  has not been completed. The method tests only that an application id is present: in
  the fresh session, after a quote and \<open>startApplication\<close> and with no call of
  \<open>completeApplication\<close> at all, \<open>purchasePolicy\<close> runs to its end and counts a policy.
\<close>

theorem purchase_without_completion:
  "outcomes (quote_and_start @ [(Call_purchasePolicy, example_env 5000 (1 / 2))]) example_session
     = [Done, Done, Done, Done, Done, Done]
   \<and> successes Call_completeApplication quote_and_start example_session = 0
   \<and> \<not> falsy (currentApplicationId (run quote_and_start example_session))
   \<and> fst (purchasePolicy (example_env 5000 (1 / 2)) (run quote_and_start example_session)) = Done
   \<and> policiesSold (metrics (snd (purchasePolicy (example_env 5000 (1 / 2))
        (run quote_and_start example_session)))) = 1
   \<and> applicationsCompleted (metrics (snd (purchasePolicy (example_env 5000 (1 / 2))
        (run quote_and_start example_session)))) = 0"
  by (simp add: quote_and_start_def example_session_def trace_simps method_simps
        del: step.simps)

text \<open>
  The same through the buttons of the page alone: once one application has been
  completed the purchase button stays enabled, a second application is started, and the
  purchase goes through for that second application.
\<close>

lemma purchase_after_restart:
  "outcomes (restart_and_purchase @ [(Call_purchasePolicy, example_env 7000 (1 / 2))]) example_session
     = [Done, Done, Done, Done, Done, Done, Done, Done, Done]
   \<and> currentApplicationId (run (take 7 restart_and_purchase) example_session) = Some ''app_4000''
   \<and> currentApplicationId (run restart_and_purchase example_session) = Some ''app_6000''
   \<and> \<not> elem_disabled (run restart_and_purchase example_session) ''purchaseBtn''
   \<and> successes Call_completeApplication restart_and_purchase example_session = 1"
  by (simp add: restart_and_purchase_def quote_and_start_def example_session_def trace_simps
        elem_disabled_step show_int_examples example_env_fields del: step.simps)

lemma no_quote_run:
  "falsy (currentQuoteId s) \<Longrightarrow> successes Call_submitQuoteRequest cs s = 0 \<Longrightarrow>
     falsy (currentQuoteId (run cs s)) \<and> successes Call_startApplication cs s = 0"
proof (induction cs arbitrary: s)
  case Nil
  then show ?case by simp
next
  case (Cons a cs)
  obtain c e where a: "a = (c, e)" by (cases a)
  from Cons.prems have ok: "\<not> (c = Call_submitQuoteRequest \<and> fst (step c e s) = Done)"
    and rest: "successes Call_submitQuoteRequest cs (snd (step c e s)) = 0"
    by (auto simp: a split: if_splits)
  have keep: "falsy (currentQuoteId (snd (step c e s)))"
    using Cons.prems(1) ok quoteId_step [of c e s]
    by (cases c; cases "fst (step c e s)"; simp)
  have "\<not> (c = Call_startApplication \<and> fst (step c e s) = Done)"
    using Cons.prems(1) by (auto simp: startApplication_outcome)
  with Cons.IH [OF keep rest] show ?case by (simp add: a)
qed

text \<open>
  C3. After a \<open>purchasePolicy\<close> that ran to its end, the quote id and the application id
  are both \<open>null\<close>; in any sequence of further calls without a successful
  \<open>submitQuoteRequest\<close> no \<open>startApplication\<close> succeeds, and one made after it is
  rejected; right after a successful \<open>submitQuoteRequest\<close>, \<open>startApplication\<close> succeeds.
\<close>

theorem purchase_resets_journey:
  assumes "fst (purchasePolicy e s) = Done"
  shows "currentQuoteId (snd (purchasePolicy e s)) = None
     \<and> currentApplicationId (snd (purchasePolicy e s)) = None
     \<and> (successes Call_submitQuoteRequest cs (snd (purchasePolicy e s)) = 0 \<longrightarrow>
          successes Call_startApplication cs (snd (purchasePolicy e s)) = 0
          \<and> fst (startApplication e' (run cs (snd (purchasePolicy e s)))) = Rejected)
     \<and> (fst (submitQuoteRequest e1 t) = Done \<longrightarrow>
          fst (startApplication e2 (snd (submitQuoteRequest e1 t))) = Done)"
proof -
  have q: "currentQuoteId (snd (purchasePolicy e s)) = None"
    and a: "currentApplicationId (snd (purchasePolicy e s)) = None"
    using assms quoteId_step [of Call_purchasePolicy e s]
      applicationId_step [of Call_purchasePolicy e s] by simp_all
  have "falsy (currentQuoteId (snd (purchasePolicy e s)))" by (simp add: q)
  from no_quote_run [OF this] have
    "successes Call_submitQuoteRequest cs (snd (purchasePolicy e s)) = 0 \<longrightarrow>
       successes Call_startApplication cs (snd (purchasePolicy e s)) = 0
       \<and> fst (startApplication e' (run cs (snd (purchasePolicy e s)))) = Rejected"
    by (simp add: startApplication_outcome)
  moreover have "fst (submitQuoteRequest e1 t) = Done \<longrightarrow>
       fst (startApplication e2 (snd (submitQuoteRequest e1 t))) = Done"
    using quoteId_step [of Call_submitQuoteRequest e1 t]
    by (simp add: startApplication_outcome)
  ultimately show ?thesis using q a by simp
qed

theorem purchase_resets_journey_witness:
  "fst (purchasePolicy (example_env 5000 (1 / 2)) (run quote_and_start example_session)) = Done
   \<and> currentQuoteId (snd (purchasePolicy (example_env 5000 (1 / 2))
        (run quote_and_start example_session))) = None
   \<and> currentApplicationId (snd (purchasePolicy (example_env 5000 (1 / 2))
        (run quote_and_start example_session))) = None
   \<and> fst (startApplication (example_env 7000 (1 / 2))
        (run [(Call_startApplication, example_env 6000 (1 / 2))]
          (snd (purchasePolicy (example_env 5000 (1 / 2))
            (run quote_and_start example_session))))) = Rejected
   \<and> fst (startApplication (example_env 4000 (1 / 2))
        (snd (submitQuoteRequest (example_env 3000 (1 / 2))
          (run (take 3 quote_and_start) example_session)))) = Done"
proof -
  let ?s = "run quote_and_start example_session"
  let ?p = "snd (purchasePolicy (example_env 5000 (1 / 2)) ?s)"
  let ?t = "run (take 3 quote_and_start) example_session"
  have h: "fst (purchasePolicy (example_env 5000 (1 / 2)) ?s) = Done"
    by (simp add: quote_and_start_def example_session_def trace_simps method_simps
          del: step.simps)
  note r = purchase_resets_journey [OF h, of "[(Call_startApplication, example_env 6000 (1 / 2))]"
      "example_env 7000 (1 / 2)" "example_env 3000 (1 / 2)" ?t "example_env 4000 (1 / 2)"]
  have q: "currentQuoteId ?p = None" using r by simp
  have n: "successes Call_submitQuoteRequest [(Call_startApplication, example_env 6000 (1 / 2))] ?p = 0"
    by simp
  have d: "fst (submitQuoteRequest (example_env 3000 (1 / 2)) ?t) = Done"
    by (simp add: quote_and_start_def example_session_def trace_simps method_simps
          del: step.simps)
  show ?thesis using r h n d by blast
qed

lemma funnel_invariant_step:
  "funnel_invariant s \<Longrightarrow> funnel_invariant (snd (step c e s))"
  unfolding funnel_invariant_def
  using quoteId_step [of c e s] applicationId_step [of c e s]
  by (cases c; cases "fst (step c e s)"; auto simp: startApplication_outcome split: if_splits)

lemma funnel_invariant_run:
  "funnel_invariant s \<Longrightarrow> funnel_invariant (run cs s)"
proof (induction cs arbitrary: s)
  case Nil
  then show ?case by simp
next
  case (Cons a cs)
  then show ?case by (cases a) (simp add: funnel_invariant_step)
qed

text \<open>
  C9. In every state reached from a fresh session by any sequence of calls, an
  application id is present only if a quote id is; a \<open>purchasePolicy\<close> that ran to its
  end, and \<open>resetPurchaseJourney\<close>, clear the two together.
\<close>

theorem funnel_invariant_reachable:
  "funnel_invariant (run cs (newAnalyticsManager e0 s0))
   \<and> (fst (purchasePolicy e s) = Done \<longrightarrow>
        currentQuoteId (snd (purchasePolicy e s)) = None
        \<and> currentApplicationId (snd (purchasePolicy e s)) = None)
   \<and> currentQuoteId (resetPurchaseJourney s) = None
   \<and> currentApplicationId (resetPurchaseJourney s) = None"
proof -
  have "funnel_invariant (newAnalyticsManager e0 s0)"
    by (simp add: funnel_invariant_def ids_new)
  then have "funnel_invariant (run cs (newAnalyticsManager e0 s0))"
    by (rule funnel_invariant_run)
  moreover have "fst (purchasePolicy e s) = Done \<longrightarrow>
        currentQuoteId (snd (purchasePolicy e s)) = None
        \<and> currentApplicationId (snd (purchasePolicy e s)) = None"
    using quoteId_step [of Call_purchasePolicy e s]
      applicationId_step [of Call_purchasePolicy e s] by simp
  moreover have "currentQuoteId (resetPurchaseJourney s) = None"
    "currentApplicationId (resetPurchaseJourney s) = None"
    by (simp_all add: resetPurchaseJourney_def page_ops Let_def)
  ultimately show ?thesis by simp
qed


theorem funnel_invariant_reachable_witness:
  "currentApplicationId (run quote_and_start example_session) \<noteq> None
   \<and> currentQuoteId (run quote_and_start example_session) \<noteq> None
   \<and> fst (purchasePolicy (example_env 5000 (1 / 2)) (run quote_and_start example_session)) = Done
   \<and> currentQuoteId (snd (purchasePolicy (example_env 5000 (1 / 2))
        (run quote_and_start example_session))) = None
   \<and> currentApplicationId (snd (purchasePolicy (example_env 5000 (1 / 2))
        (run quote_and_start example_session))) = None"
proof -
  let ?s = "run quote_and_start example_session"
  have a: "currentApplicationId ?s \<noteq> None"
    by (simp add: quote_and_start_def example_session_def trace_simps del: step.simps)
  have h: "fst (purchasePolicy (example_env 5000 (1 / 2)) ?s) = Done"
    by (simp add: quote_and_start_def example_session_def trace_simps method_simps
          del: step.simps)
  show ?thesis
    using a h funnel_invariant_reachable [of quote_and_start "example_env 1000 (1 / 2)"
        "page True Map.empty" "example_env 5000 (1 / 2)" ?s]
    unfolding funnel_invariant_def example_session_def by blast
qed


text \<open>
  C5. A rejected \<open>startApplication\<close> (no quote id), a rejected \<open>completeApplication\<close>
  (no application id, or empty personal information) and a rejected \<open>trackRetention\<close>
  (no cohort or no join date in the store) do nothing but show their error line:
  the state is the old one with the status line set, and setting the status line
  leaves the counters, both ids, the store and the telemetry as they were.
\<close>

theorem rejected_calls_change_nothing:
  "(falsy (currentQuoteId s) \<longrightarrow>
      startApplication e s = (Rejected, showStatus ''Please request a quote first'' ''error'' s))
   \<and> (falsy (currentApplicationId s) \<longrightarrow>
      completeApplication e s
        = (Rejected, showStatus ''Please start an application first'' ''error'' s))
   \<and> (\<not> falsy (currentApplicationId s) \<and> elem_value s ''personalInfo'' = [] \<longrightarrow>
      completeApplication e s
        = (Rejected, showStatus ''Please fill in personal information'' ''error'' s))
   \<and> (falsy (localStorage s ''user_cohort'') \<or> falsy (localStorage s ''cohort_join_date'') \<longrightarrow>
      trackRetention e s = (Rejected, showStatus ''Please join a cohort first'' ''error'' s))
   \<and> metrics (showStatus m t s) = metrics s
   \<and> currentQuoteId (showStatus m t s) = currentQuoteId s
   \<and> currentApplicationId (showStatus m t s) = currentApplicationId s
   \<and> localStorage (showStatus m t s) = localStorage s
   \<and> telemetry (showStatus m t s) = telemetry s"
  by (simp add: startApplication_def completeApplication_def trackRetention_def Let_def)

theorem rejected_calls_change_nothing_witness:
  "startApplication (example_env 2000 (1 / 2)) example_session
     = (Rejected, showStatus ''Please request a quote first'' ''error'' example_session)
   \<and> completeApplication (example_env 2000 (1 / 2)) example_session
     = (Rejected, showStatus ''Please start an application first'' ''error'' example_session)
   \<and> completeApplication (example_env 5000 (1 / 2)) (run quote_and_start example_session)
     = (Rejected, showStatus ''Please fill in personal information'' ''error''
          (run quote_and_start example_session))
   \<and> trackRetention (example_env 2000 (1 / 2)) example_session
     = (Rejected, showStatus ''Please join a cohort first'' ''error'' example_session)
   \<and> telemetry (showStatus ''Please join a cohort first'' ''error'' example_session)
     = telemetry example_session"
proof -
  have q: "falsy (currentQuoteId example_session)" "falsy (currentApplicationId example_session)"
    by (simp_all add: example_session_def ids_new)
  have a: "\<not> falsy (currentApplicationId (run quote_and_start example_session))
      \<and> elem_value (run quote_and_start example_session) ''personalInfo'' = []"
    by (simp add: quote_and_start_def example_session_def trace_simps del: step.simps)
  have c: "falsy (localStorage example_session ''user_cohort'')
      \<or> falsy (localStorage example_session ''cohort_join_date'')"
    by (simp add: localStorage_example)
  show ?thesis
    using q a c
      rejected_calls_change_nothing [of example_session "example_env 2000 (1 / 2)"
        "''Please join a cohort first''" "''error''"]
      rejected_calls_change_nothing [of "run quote_and_start example_session"
        "example_env 5000 (1 / 2)"]
    by blast
qed

lemma completeApplication_done:
  assumes "\<not> falsy (currentApplicationId s)" "elem_value s ''personalInfo'' \<noteq> []"
  shows "fst (completeApplication e s) = Done"
    and "currentApplicationId (snd (completeApplication e s)) = currentApplicationId s"
    and "currentQuoteId (snd (completeApplication e s)) = currentQuoteId s"
    and "sessionId (snd (completeApplication e s)) = sessionId s"
    and "sessionStartTime (snd (completeApplication e s)) = sessionStartTime s"
    and "appInsights (snd (completeApplication e s)) = appInsights s"
    and "elem_value (snd (completeApplication e s)) = elem_value s"
    and "applicationsCompleted (metrics (snd (completeApplication e s)))
           = applicationsCompleted (metrics s) + 1"
    and "telemetry (snd (completeApplication e s)) =
           telemetry s @
           (if appInsights s then
              [ai_trackEvent ''ApplicationCompleted''
                 [(''applicationId'', optval (currentApplicationId s)),
                  (''quoteId'', optval (currentQuoteId s)),
                  (''sessionId'', Str (sessionId s))]
                 [(''timeToCompleteMs'', Num (of_int (date_now e - sessionStartTime s)))],
               ai_trackEvent ''FunnelStep''
                 [(''step'', Str ''application_completed''),
                  (''funnelId'', optval (currentQuoteId s)),
                  (''sessionId'', Str (sessionId s))] []]
            else [])"
  using assms by (simp_all add: completeApplication_def page_ops Let_def)

text \<open>
  C10. With an application id present and personal information filled in,
  \<open>completeApplication\<close> can be called any number of times in a row: every call runs to
  its end, the application id stays, \<open>applicationsCompleted\<close> grows by one per call, and
  each call sends (when the SDK is loaded; nothing is sent without it) an
  \<open>ApplicationCompleted\<close> event with that same application id, followed by its
  \<open>FunnelStep\<close> event.
\<close>

theorem completeApplication_repeats:
  assumes "\<not> falsy (currentApplicationId s)" and "elem_value s ''personalInfo'' \<noteq> []"
  shows "outcomes (completions es) s = replicate (length es) Done
     \<and> currentApplicationId (run (completions es) s) = currentApplicationId s
     \<and> applicationsCompleted (metrics (run (completions es) s))
         = applicationsCompleted (metrics s) + length es
     \<and> telemetry (run (completions es) s) =
          telemetry s @
          (if appInsights s then
             concat (map (\<lambda>e.
               [ai_trackEvent ''ApplicationCompleted''
                  [(''applicationId'', optval (currentApplicationId s)),
                   (''quoteId'', optval (currentQuoteId s)),
                   (''sessionId'', Str (sessionId s))]
                  [(''timeToCompleteMs'', Num (of_int (date_now e - sessionStartTime s)))],
                ai_trackEvent ''FunnelStep''
                  [(''step'', Str ''application_completed''),
                   (''funnelId'', optval (currentQuoteId s)),
                   (''sessionId'', Str (sessionId s))] []]) es)
           else [])"
  using assms
proof (induction es arbitrary: s)
  case Nil
  show ?case by (simp add: completions_def)
next
  case (Cons e es)
  let ?s' = "snd (completeApplication e s)"
  note d = completeApplication_done [OF Cons.prems, of e]
  have p: "\<not> falsy (currentApplicationId ?s')" "elem_value ?s' ''personalInfo'' \<noteq> []"
    using Cons.prems by (simp_all add: d)
  note ih = Cons.IH [OF p]
  have c: "completions (e # es) = (Call_completeApplication, e) # completions es"
    by (simp add: completions_def)
  show ?case
    using ih by (simp add: c d)
qed


theorem completeApplication_repeats_witness:
  "\<not> falsy (currentApplicationId (run (take 6 restart_and_purchase) example_session))
   \<and> elem_value (run (take 6 restart_and_purchase) example_session) ''personalInfo'' \<noteq> []
   \<and> appInsights (run (take 6 restart_and_purchase) example_session)
   \<and> outcomes (completions [example_env 5000 (1 / 2), example_env 5001 (1 / 2),
          example_env 5002 (1 / 2)]) (run (take 6 restart_and_purchase) example_session)
       = [Done, Done, Done]
   \<and> currentApplicationId (run (completions [example_env 5000 (1 / 2), example_env 5001 (1 / 2),
          example_env 5002 (1 / 2)]) (run (take 6 restart_and_purchase) example_session))
       = Some ''app_4000''
   \<and> applicationsCompleted (metrics (run (completions [example_env 5000 (1 / 2),
          example_env 5001 (1 / 2), example_env 5002 (1 / 2)])
          (run (take 6 restart_and_purchase) example_session))) = 3
   \<and> length (telemetry (run (completions [example_env 5000 (1 / 2),
          example_env 5001 (1 / 2), example_env 5002 (1 / 2)])
          (run (take 6 restart_and_purchase) example_session)))
       = length (telemetry (run (take 6 restart_and_purchase) example_session)) + 6"
proof -
  let ?t = "run (take 6 restart_and_purchase) example_session"
  let ?es = "[example_env 5000 (1 / 2), example_env 5001 (1 / 2), example_env 5002 (1 / 2)]"
  have a: "currentApplicationId ?t = Some ''app_4000''"
    by (simp add: restart_and_purchase_def quote_and_start_def example_session_def trace_simps
          show_int_examples example_env_fields del: step.simps)
  have f: "\<not> falsy (currentApplicationId ?t)" by (simp add: a)
  have p: "elem_value ?t ''personalInfo'' \<noteq> []"
    by (simp add: restart_and_purchase_def quote_and_start_def example_session_def trace_simps
          del: step.simps)
  have i: "appInsights ?t"
    by (simp add: restart_and_purchase_def quote_and_start_def example_session_def
          appInsights_step appInsights_new page_def del: step.simps)
  have m: "applicationsCompleted (metrics ?t) = 0"
    by (simp add: restart_and_purchase_def quote_and_start_def example_session_def trace_simps
          del: step.simps)
  show ?thesis
    using completeApplication_repeats [OF f p, of ?es] a p i m by simp
qed








subsection \<open>The A/B test\<close>

lemma double_close:
  "\<bar>double_0_15 - 15 / 100\<bar> \<le> 1 / 2 ^ 57" "\<bar>double_0_22 - 22 / 100\<bar> \<le> 1 / 2 ^ 57"
  by (simp_all add: double_0_15_def double_0_22_def)

text \<open>
  C6. \<open>runABTest\<close> uses the rate written \<open>0.15\<close> for the label \<open>variant_a\<close> and the rate
  written \<open>0.22\<close> for any other label (each the double nearest to the decimal, within
  \<open>2^-57\<close> of it); it sends the \<open>ABTestParticipation\<close> event whatever the draw is, and
  after it the \<open>ABTestConversion\<close> event exactly when the draw is strictly below the
  rate. (Sending goes through the test for \<open>window.appInsights\<close>: without the SDK nothing
  is sent.)
\<close>

theorem ab_test_events:
  "conversionRate ''variant_a'' = double_0_15
     \<and> (variant \<noteq> ''variant_a'' \<longrightarrow> conversionRate variant = double_0_22)
     \<and> \<bar>double_0_15 - 15 / 100\<bar> \<le> 1 / 2 ^ 57
     \<and> \<bar>double_0_22 - 22 / 100\<bar> \<le> 1 / 2 ^ 57
     \<and> telemetry (runABTest variant e s) =
         telemetry s
         @ (if appInsights s then
              [ai_trackEvent ''ABTestParticipation''
                 [(''testName'', Str ''homepage_cta_test''),
                  (''variant'', Str variant),
                  (''sessionId'', Str (sessionId s))] []]
              @ (if math_random e 0 < conversionRate variant
                 then [ai_trackEvent ''ABTestConversion''
                         [(''testName'', Str ''homepage_cta_test''),
                          (''variant'', Str variant),
                          (''sessionId'', Str (sessionId s))] []]
                 else [])
            else [])"
proof -
  have rate: "conversionRate ''variant_a'' = double_0_15"
    "variant \<noteq> ''variant_a'' \<longrightarrow> conversionRate variant = double_0_22"
    by (simp_all add: conversionRate_def)
  have sent: "telemetry (runABTest variant e s) =
         telemetry s
         @ (if appInsights s then
              [ai_trackEvent ''ABTestParticipation''
                 [(''testName'', Str ''homepage_cta_test''),
                  (''variant'', Str variant),
                  (''sessionId'', Str (sessionId s))] []]
              @ (if math_random e 0 < conversionRate variant
                 then [ai_trackEvent ''ABTestConversion''
                         [(''testName'', Str ''homepage_cta_test''),
                          (''variant'', Str variant),
                          (''sessionId'', Str (sessionId s))] []]
                 else [])
            else [])"
    by (simp add: runABTest_def page_ops Let_def)
  from rate double_close sent show ?thesis by blast
qed

theorem ab_test_events_witness:
  "appInsights (page True Map.empty)
   \<and> ''variant_b'' \<noteq> ''variant_a''
   \<and> conversionRate ''variant_b'' = double_0_22
   \<and> telemetry (runABTest ''variant_b'' (example_env 1000 (1 / 5)) (page True Map.empty)) =
       [ai_trackEvent ''ABTestParticipation''
          [(''testName'', Str ''homepage_cta_test''), (''variant'', Str ''variant_b''),
           (''sessionId'', Str [])] [],
        ai_trackEvent ''ABTestConversion''
          [(''testName'', Str ''homepage_cta_test''), (''variant'', Str ''variant_b''),
           (''sessionId'', Str [])] []]
   \<and> telemetry (runABTest ''variant_a'' (example_env 1000 (1 / 5)) (page True Map.empty)) =
       [ai_trackEvent ''ABTestParticipation''
          [(''testName'', Str ''homepage_cta_test''), (''variant'', Str ''variant_a''),
           (''sessionId'', Str [])] []]"
proof -
  have h: "appInsights (page True Map.empty)" by (simp add: page_def)
  have n: "''variant_b'' \<noteq> ''variant_a''" by simp
  have f: "telemetry (page True Map.empty) = []" "sessionId (page True Map.empty) = []"
    by (simp_all add: page_def)
  have r: "math_random (example_env 1000 (1 / 5)) 0 < double_0_22"
    "\<not> math_random (example_env 1000 (1 / 5)) 0 < double_0_15"
    by (simp_all add: example_env_fields double_0_22_def double_0_15_def)
  show ?thesis
    using h n r f
      ab_test_events [of "''variant_b''" "example_env 1000 (1 / 5)" "page True Map.empty"]
      ab_test_events [of "''variant_a''" "example_env 1000 (1 / 5)" "page True Map.empty"]
    by simp
qed

subsection \<open>Cohort ids\<close>

lemma digit_char_0: "digit_char 0 = CHR ''0''"
  by (simp add: digit_char_def)

lemma show_nat_four_digits:
  assumes "1000 \<le> n" and "n < 10000"
  shows "show_nat n = map digit_char [n div 1000, n div 100 mod 10, n div 10 mod 10, n mod 10]"
proof -
  have d: "n div 10 div 10 = n div 100" "n div 10 div 10 div 10 = n div 1000"
    by (simp_all add: div_mult2_eq)
  have b: "\<not> n < 10" "\<not> n div 10 < 10" "\<not> n div 100 < 10" "n div 1000 < 10"
    using assms by simp_all
  show ?thesis
    using b d
    by (simp add: show_nat.simps [of n] show_nat.simps [of "n div 10"]
          show_nat.simps [of "n div 100"] show_nat.simps [of "n div 1000"])
qed

lemma show_nat_two_digits:
  assumes "k \<le> 12"
  shows "padStart 2 CHR ''0'' (show_nat k) = map digit_char [k div 10, k mod 10]"
proof (cases "k < 10")
  case True
  then show ?thesis
    by (simp add: padStart_def show_nat.simps [of k] digit_char_0)
next
  case False
  with assms have "k div 10 < 10" by simp
  with False show ?thesis
    by (simp add: padStart_def show_nat.simps [of k] show_nat.simps [of "k div 10"])
qed

text \<open>
  C7. For a year of four digits and a month number from 0 to 11, \<open>getCohortId\<close> is
  \<open>cohort_\<close>, the four digits of the year, an underscore, and the two digits of the
  month counted from 1 (with a leading zero below 10); in March 2024 it is
  \<open>cohort_2024_03\<close>.
\<close>

theorem cohort_id_format:
  "(1000 \<le> date_fullYear e \<and> date_fullYear e \<le> 9999 \<and> date_month e \<le> 11 \<longrightarrow>
      getCohortId e =
        ''cohort_''
        @ map digit_char [nat (date_fullYear e) div 1000, nat (date_fullYear e) div 100 mod 10,
                          nat (date_fullYear e) div 10 mod 10, nat (date_fullYear e) mod 10]
        @ ''_''
        @ map digit_char [(date_month e + 1) div 10, (date_month e + 1) mod 10])
   \<and> (date_fullYear e = 2024 \<and> date_month e = 2 \<longrightarrow> getCohortId e = ''cohort_2024_03'')"
proof -
  have "getCohortId e = ''cohort_2024_03''" if "date_fullYear e = 2024" "date_month e = 2"
    using that
    by (simp add: getCohortId_def show_int_def padStart_def show_nat.simps digit_char_def)
  moreover have "getCohortId e =
        ''cohort_''
        @ map digit_char [nat (date_fullYear e) div 1000, nat (date_fullYear e) div 100 mod 10,
                          nat (date_fullYear e) div 10 mod 10, nat (date_fullYear e) mod 10]
        @ ''_''
        @ map digit_char [(date_month e + 1) div 10, (date_month e + 1) mod 10]"
    if y: "1000 \<le> date_fullYear e" "date_fullYear e \<le> 9999" and m: "date_month e \<le> 11"
  proof -
    have "1000 \<le> nat (date_fullYear e)" "nat (date_fullYear e) < 10000"
      using y by simp_all
    note year = show_nat_four_digits [OF this]
    have "date_month e + 1 \<le> 12" using m by simp
    note month = show_nat_two_digits [OF this]
    have "show_int (date_fullYear e) = show_nat (nat (date_fullYear e))"
      using y by (simp add: show_int_def)
    then show ?thesis
      unfolding getCohortId_def year month by simp
  qed
  ultimately show ?thesis by blast
qed

theorem cohort_id_format_witness:
  "1000 \<le> date_fullYear (example_env 1710495000000 (1 / 2))
   \<and> date_fullYear (example_env 1710495000000 (1 / 2)) \<le> 9999
   \<and> date_month (example_env 1710495000000 (1 / 2)) \<le> 11
   \<and> date_fullYear (example_env 1710495000000 (1 / 2)) = 2024
   \<and> date_month (example_env 1710495000000 (1 / 2)) = 2
   \<and> getCohortId (example_env 1710495000000 (1 / 2)) = ''cohort_2024_03''"
  using cohort_id_format [of "example_env 1710495000000 (1 / 2)"]
  by (simp add: example_env_fields digit_char_def)


subsection \<open>The user id\<close>

lemma digit_char_inj:
  assumes "m < 10" and "n < 10" and "digit_char m = digit_char n"
  shows "m = n"
proof -
  have "distinct ''0123456789''" by simp
  moreover have "m < length ''0123456789''" "n < length ''0123456789''"
    using assms by simp_all
  ultimately show ?thesis
    using assms(3) unfolding digit_char_def by (simp only: nth_eq_iff_index_eq)
qed

lemma digit_char_is_digit: "n < 10 \<Longrightarrow> isDigit (digit_char n)"
  unfolding digit_char_def isDigit_def by (rule nth_mem) simp

lemma show_nat_not_empty: "show_nat n \<noteq> []"
  by (subst show_nat.simps) simp

lemma show_nat_digits: "c \<in> set (show_nat n) \<Longrightarrow> isDigit c"
proof (induction n arbitrary: c rule: show_nat.induct)
  case (1 n)
  show ?case
  proof (cases "n < 10")
    case True
    with "1.prems" show ?thesis
      by (simp add: show_nat.simps [of n] digit_char_is_digit)
  next
    case False
    with "1.prems" have "c \<in> set (show_nat (n div 10)) \<or> c = digit_char (n mod 10)"
      by (auto simp: show_nat.simps [of n])
    with False "1.IH" show ?thesis
      by (auto simp: digit_char_is_digit)
  qed
qed

lemma show_nat_inj: "show_nat m = show_nat n \<Longrightarrow> m = n"
proof (induction m arbitrary: n rule: show_nat.induct)
  case (1 m)
  show ?case
  proof (cases "m < 10")
    case m: True
    show ?thesis
    proof (cases "n < 10")
      case True
      with m "1.prems" have "digit_char m = digit_char n"
        by (simp add: show_nat.simps [of m] show_nat.simps [of n])
      with m True show ?thesis by (rule digit_char_inj)
    next
      case False
      with m "1.prems" show_nat_not_empty [of "n div 10"] show ?thesis
        by (auto simp: show_nat.simps [of m] show_nat.simps [of n])
    qed
  next
    case m: False
    show ?thesis
    proof (cases "n < 10")
      case True
      with m "1.prems" show_nat_not_empty [of "m div 10"] show ?thesis
        by (auto simp: show_nat.simps [of m] show_nat.simps [of n])
    next
      case False
      with m "1.prems" have eq: "show_nat (m div 10) = show_nat (n div 10)"
        and d: "digit_char (m mod 10) = digit_char (n mod 10)"
        by (simp_all add: show_nat.simps [of m] show_nat.simps [of n])
      from "1.IH" [OF m eq] have q: "m div 10 = n div 10" .
      have "m mod 10 < 10" "n mod 10 < 10" by simp_all
      from this d have r: "m mod 10 = n mod 10" by (rule digit_char_inj)
      from q r show ?thesis by (metis div_mult_mod_eq)
    qed
  qed
qed

lemma show_int_chars: "c \<in> set (show_int i) \<Longrightarrow> isDigit c \<or> c = CHR ''-''"
  by (auto simp: show_int_def dest: show_nat_digits split: if_splits)

lemma show_int_inj: "show_int i = show_int j \<Longrightarrow> i = j"
proof -
  assume eq: "show_int i = show_int j"
  have minus: "\<not> isDigit CHR ''-''" by (simp add: isDigit_def)
  have no: "show_nat k \<noteq> CHR ''-'' # xs" for k xs
  proof
    assume "show_nat k = CHR ''-'' # xs"
    then have "CHR ''-'' \<in> set (show_nat k)" by simp
    with show_nat_digits minus show False by blast
  qed
  show "i = j"
  proof (cases "i < 0")
    case i: True
    show ?thesis
    proof (cases "j < 0")
      case True
      with i eq have "show_nat (nat (- i)) = show_nat (nat (- j))" by (simp add: show_int_def)
      then have "nat (- i) = nat (- j)" by (rule show_nat_inj)
      with i True show ?thesis by simp
    next
      case False
      with i eq no [of "nat j" "show_nat (nat (- i))"] show ?thesis by (simp add: show_int_def)
    qed
  next
    case i: False
    show ?thesis
    proof (cases "j < 0")
      case True
      with i eq no [of "nat i" "show_nat (nat (- j))"] show ?thesis by (simp add: show_int_def)
    next
      case False
      with i eq have "show_nat (nat i) = show_nat (nat j)" by (simp add: show_int_def)
      then have "nat i = nat j" by (rule show_nat_inj)
      with i False show ?thesis by simp
    qed
  qed
qed

lemma split_at_underscore:
  assumes "xs @ CHR ''_'' # r1 = ys @ CHR ''_'' # r2"
    and "CHR ''_'' \<notin> set xs" and "CHR ''_'' \<notin> set ys"
  shows "xs = ys \<and> r1 = r2"
proof -
  have "takeWhile (\<lambda>c. c \<noteq> CHR ''_'') (xs @ CHR ''_'' # r1) = xs"
    using assms(2) by (auto simp: takeWhile_tail)
  moreover have "takeWhile (\<lambda>c. c \<noteq> CHR ''_'') (ys @ CHR ''_'' # r2) = ys"
    using assms(3) by (auto simp: takeWhile_tail)
  ultimately have "xs = ys" using assms(1) by simp
  with assms(1) show ?thesis by simp
qed

lemma generated_id_inj:
  "(p @ show_int t1 @ ''_'' @ r1 = p @ show_int t2 @ ''_'' @ r2) = (t1 = t2 \<and> r1 = r2)"
proof
  assume "p @ show_int t1 @ ''_'' @ r1 = p @ show_int t2 @ ''_'' @ r2"
  then have eq: "show_int t1 @ CHR ''_'' # r1 = show_int t2 @ CHR ''_'' # r2" by simp
  have u: "\<not> isDigit CHR ''_''" by (simp add: isDigit_def)
  have "CHR ''_'' \<notin> set (show_int t)" for t
    using show_int_chars [of "CHR ''_''" t] u by auto
  from split_at_underscore [OF eq this this] show "t1 = t2 \<and> r1 = r2"
    by (auto dest: show_int_inj)
next
  assume "t1 = t2 \<and> r1 = r2"
  then show "p @ show_int t1 @ ''_'' @ r1 = p @ show_int t2 @ ''_'' @ r2" by simp
qed

lemma getOrCreateUserId_fresh:
  "falsy (st ''app_insights_user_id'') \<Longrightarrow>
     getOrCreateUserId e st =
       (''user_'' @ show_int (date_now e) @ ''_'' @ math_random36 e 0,
        st(''app_insights_user_id'' \<mapsto> ''user_'' @ show_int (date_now e) @ ''_'' @ math_random36 e 0))"
  by (simp add: getOrCreateUserId_def Let_def)

lemma getOrCreateUserId_stored:
  "\<not> falsy (st ''app_insights_user_id'') \<Longrightarrow>
     getOrCreateUserId e st = (the (st ''app_insights_user_id''), st)"
  by (simp add: getOrCreateUserId_def)

lemma simulateNewVisitor_storage:
  "localStorage (simulateNewVisitor e s) =
     (localStorage s)(''app_insights_user_id'' := None, ''visitor_type'' \<mapsto> ''new'')"
  by (simp add: simulateNewVisitor_def page_ops Let_def)

text \<open>
  C8, as the code has it. \<open>getOrCreateUserId\<close> never returns the empty string, and a
  second call on the store the first one left returns the same id and leaves the store
  as it is. After \<open>simulateNewVisitor\<close> has removed the stored id, the next call makes a
  new id from the clock and the random text and stores it; two ids made this way are
  equal exactly when the clock reading and the random text are both equal.
\<close>

theorem user_id_stable_then_regenerated:
  "fst (getOrCreateUserId e st) \<noteq> []
   \<and> getOrCreateUserId e' (snd (getOrCreateUserId e st)) =
       (fst (getOrCreateUserId e st), snd (getOrCreateUserId e st))
   \<and> getOrCreateUserId e' (localStorage (simulateNewVisitor e'' s)) =
       (''user_'' @ show_int (date_now e') @ ''_'' @ math_random36 e' 0,
        (localStorage (simulateNewVisitor e'' s))
          (''app_insights_user_id'' \<mapsto>
             ''user_'' @ show_int (date_now e') @ ''_'' @ math_random36 e' 0))
   \<and> ((''user_'' @ show_int (date_now e1) @ ''_'' @ math_random36 e1 0
         = ''user_'' @ show_int (date_now e2) @ ''_'' @ math_random36 e2 0)
        = (date_now e1 = date_now e2 \<and> math_random36 e1 0 = math_random36 e2 0))"
proof -
  have a: "fst (getOrCreateUserId e st) \<noteq> []"
    by (cases "st ''app_insights_user_id''") (auto simp: getOrCreateUserId_def Let_def)
  have b: "getOrCreateUserId e' (snd (getOrCreateUserId e st)) =
       (fst (getOrCreateUserId e st), snd (getOrCreateUserId e st))"
    by (cases "st ''app_insights_user_id''") (auto simp: getOrCreateUserId_def Let_def)
  have "falsy (localStorage (simulateNewVisitor e'' s) ''app_insights_user_id'')"
    by (simp add: simulateNewVisitor_storage)
  note c = getOrCreateUserId_fresh [where st = "localStorage (simulateNewVisitor e'' s)"
      and e = e', OF this]
  from a b c generated_id_inj [of "''user_''"] show ?thesis by blast
qed

text \<open>
  C8. The specification asks that the id after a reset differ from the one before. When the
  clock reading and the random text are the same as when the first id was made, the id
  made after the reset is the same id.
\<close>

theorem same_instant_same_user_id:
  "fst (getOrCreateUserId (example_env 1000 (1 / 2)) Map.empty) = ''user_1000_k3j9x2m1q''
   \<and> snd (getOrCreateUserId (example_env 1000 (1 / 2)) Map.empty) ''app_insights_user_id''
       = Some ''user_1000_k3j9x2m1q''
   \<and> localStorage (simulateNewVisitor (example_env 1000 (1 / 2))
        (page True (snd (getOrCreateUserId (example_env 1000 (1 / 2)) Map.empty))))
        ''app_insights_user_id'' = None
   \<and> fst (getOrCreateUserId (example_env 1000 (1 / 2))
        (localStorage (simulateNewVisitor (example_env 1000 (1 / 2))
          (page True (snd (getOrCreateUserId (example_env 1000 (1 / 2)) Map.empty))))))
       = ''user_1000_k3j9x2m1q''"
  by (simp add: getOrCreateUserId_def simulateNewVisitor_storage page_def Let_def
        example_env_fields show_int_def show_nat.simps digit_char_def)


end
